theory Spec2Isabelle
  imports Main
begin

section \<open>Go values: errors and formatting\<close>

text \<open>
  A Go \<open>error\<close> is either a plain message or, as \<open>fmt.Errorf\<close> builds it for a
  format with the verb \<open>%w\<close>, a message together with the error it wraps.
  \<open>Error\<close> is the method \<open>Error()\<close>, \<open>Unwrap\<close> is \<open>errors.Unwrap\<close>.
\<close>

datatype go_error = ErrorString string | WrapError string go_error

fun Error :: "go_error \<Rightarrow> string" where
  "Error (ErrorString msg) = msg"
| "Error (WrapError msg cause) = msg"

fun Unwrap :: "go_error \<Rightarrow> go_error option" where
  "Unwrap (ErrorString msg) = None"
| "Unwrap (WrapError msg cause) = Some cause"

text \<open>\<open>strings.Join\<close>, and the verb \<open>%v\<close> applied to a \<open>[]string\<close>: \<open>[a b c]\<close>.\<close>

fun Join :: "string list \<Rightarrow> string \<Rightarrow> string" where
  "Join [] sep = []"
| "Join [a] sep = a"
| "Join (a # b # rest) sep = a @ sep @ Join (b # rest) sep"

definition fmt_v :: "string list \<Rightarrow> string" where
  "fmt_v args = ''['' @ Join args '' '' @ '']''"

text \<open>The verb \<open>%d\<close> applied to an \<open>int\<close>: the decimal digits, with a sign when negative.\<close>

fun digits :: "nat \<Rightarrow> string" where
  "digits n =
     (if n < 10 then [''0123456789'' ! n]
      else digits (n div 10) @ [''0123456789'' ! (n mod 10)])"

declare digits.simps [simp del]

definition fmt_d :: "int \<Rightarrow> string" where
  "fmt_d i = (if i < 0 then ''-'' @ digits (nat (- i)) else digits (nat i))"

text \<open>\<open>strings.HasPrefix\<close> and \<open>strings.Contains\<close>, used to state what a message embeds.\<close>

definition HasPrefix :: "string \<Rightarrow> string \<Rightarrow> bool" where
  "HasPrefix s pre = (take (length pre) s = pre)"

fun Contains :: "string \<Rightarrow> string \<Rightarrow> bool" where
  "Contains [] sub = (sub = [])"
| "Contains (c # cs) sub = (HasPrefix (c # cs) sub \<or> Contains cs sub)"

section \<open>The process executor (command.go)\<close>

text \<open>
  What \<open>cmd.Run()\<close> leaves behind: the bytes the child wrote to the two buffers and the
  error \<open>Run\<close> returned. By the contract of \<open>os/exec\<close> the error is \<open>nil\<close> exactly when
  the process was started, was not killed through its context and exited with status 0.
\<close>

record cmd_result =
  stdout :: string
  stderr :: string
  run_err :: "go_error option"

text \<open>
  The operating system is a parameter \<open>Run\<close> (context, command, arguments to result).
  Starting a child process is the one side effect of the function; it is made explicit
  as the list of processes spawned so far, which \<open>getCommandOutput\<close> extends by one.
\<close>

type_synonym spawned = "(string \<times> string list) list"

definition getCommandOutput ::
  "('ctx \<Rightarrow> string \<Rightarrow> string list \<Rightarrow> cmd_result) \<Rightarrow> 'ctx \<Rightarrow> string \<Rightarrow> string list \<Rightarrow>
     spawned \<Rightarrow> (string \<times> go_error option) \<times> spawned" where
  "getCommandOutput Run cx command args procs =
     (let cmd = Run cx command args;
          procs' = procs @ [(command, args)]
      in case run_err cmd of
           Some err \<Rightarrow>
             (('''', Some (WrapError
                 (''failed to run '' @ command @ '' '' @ fmt_v args @ '' stdout '' @ stdout cmd
                    @ '' stderr '' @ stderr cmd @ '' '' @ Error err) err)), procs')
         | None \<Rightarrow> ((stdout cmd, None), procs'))"

section \<open>The attribute set handed to the assembler\<close>

text \<open>
  \<open>schema.ResourceData\<close> is read through \<open>d.Get(key)\<close> and \<open>d.GetOk(key)\<close>. The
  schema fixes the type of every key, so the data is a record with one field per key:
  \<open>None\<close> when the data holds no value for the key. A \<open>clientcert\<close> block list is a
  list; an element is \<open>None\<close> when it is not a map (the comma-ok assertion of the
  source fails on it).
\<close>

record ClientCertBlock =
  cert :: string
  key :: string

record ResourceData =
  attr_scheme :: "string option"
  attr_host :: "string option"
  attr_port :: "int option"
  attr_database :: "string option"
  attr_username :: "string option"
  attr_password :: "string option"
  attr_password_command :: "string option"
  attr_database_username :: "string option"
  attr_superuser :: "bool option"
  attr_sslmode :: "string option"
  attr_ssl_mode :: "string option"
  attr_clientcert :: "ClientCertBlock option list"
  attr_sslrootcert :: "string option"
  attr_connect_timeout :: "int option"
  attr_max_connections :: "int option"
  attr_expected_version :: "string option"
  attr_jumphost :: "string option"

text \<open>
  \<open>Get\<close> returns the value, or the zero value of the key's type when there is none.
  \<open>GetOk\<close> returns the same value and whether it exists and is not the zero value.
\<close>

definition Get_string :: "string option \<Rightarrow> string" where
  "Get_string r = (case r of Some v \<Rightarrow> v | None \<Rightarrow> '''')"

definition Get_int :: "int option \<Rightarrow> int" where
  "Get_int r = (case r of Some v \<Rightarrow> v | None \<Rightarrow> 0)"

definition Get_bool :: "bool option \<Rightarrow> bool" where
  "Get_bool r = (case r of Some v \<Rightarrow> v | None \<Rightarrow> False)"

definition GetOk_string :: "string option \<Rightarrow> string \<times> bool" where
  "GetOk_string r = (Get_string r, r \<noteq> None \<and> Get_string r \<noteq> '''')"

definition GetOk_list :: "'a list \<Rightarrow> 'a list \<times> bool" where
  "GetOk_list r = (r, r \<noteq> [])"

section \<open>The connection descriptor\<close>

text \<open>\<open>semver.Version\<close> of the library, and its zero value \<open>Version{}\<close>.\<close>

datatype PRVersion = PRNum nat | PRStr string

record Version =
  Major :: nat
  Minor :: nat
  Patch :: nat
  Pre :: "PRVersion list"
  Build :: "string list"

definition zeroVersion :: Version where
  "zeroVersion = \<lparr>Major = 0, Minor = 0, Patch = 0, Pre = [], Build = []\<rparr>"

record ClientCertificateConfig =
  CertificatePath :: string
  KeyPath :: string

text \<open>
  \<open>Config\<close>, with the fields the assembler fills in. \<open>Config\<close> and its method
  \<open>NewClient\<close> are declared in a file that is not among the sources: the client is kept
  as the application of the constructor to the descriptor and the database name.
\<close>

record 'ctx Config =
  Scheme :: string
  Host :: string
  Port :: int
  Username :: string
  Password :: string
  DatabaseUsername :: string
  Superuser :: bool
  SSLMode :: string
  ApplicationName :: string
  ConnectTimeoutSec :: int
  MaxConns :: int
  ExpectedVersion :: Version
  SSLRootCertPath :: string
  JumpHost :: string
  TunneledPort :: int
  PasswordCommand :: string
  ctx :: 'ctx
  SSLClientCert :: "ClientCertificateConfig option"

datatype 'ctx Client = NewClient "'ctx Config" string

text \<open>The two ways a call can fail: it returns an error value, or it panics.\<close>

datatype failure = Err go_error | Panic string

section \<open>The configuration assembler\<close>

text \<open>
  \<open>validateExpectedVersion\<close>, the \<open>ValidateFunc\<close> of \<open>expected_version\<close>. The
  library's \<open>semver.ParseTolerant\<close> and the quoting of the verb \<open>%q\<close> are parameters.
\<close>

definition validateExpectedVersion ::
  "(string \<Rightarrow> Version \<times> go_error option) \<Rightarrow> (string \<Rightarrow> string) \<Rightarrow> string \<Rightarrow> string \<Rightarrow>
     string list \<times> go_error list" where
  "validateExpectedVersion ParseTolerant Quote v k =
     (case snd (ParseTolerant v) of
        Some err \<Rightarrow>
          ([], [] @ [WrapError (''invalid version ('' @ Quote v @ ''): '' @ Error err) err])
      | None \<Rightarrow> ([], []))"

text \<open>
  \<open>providerConfigure\<close>. The process-wide state it runs in is the state of the
  \<open>math/rand\<close> generator, which \<open>getRandomPort\<close> (a parameter here) may read and write,
  and the list of the child processes started so far.
\<close>

definition providerConfigure ::
  "(string \<Rightarrow> Version \<times> go_error option) \<Rightarrow> (string \<Rightarrow> 'g \<Rightarrow> int \<times> 'g) \<Rightarrow> 'ctx \<Rightarrow>
     ResourceData \<Rightarrow> 'g \<times> spawned \<Rightarrow> (failure + 'ctx Client) \<times> ('g \<times> spawned)" where
  "providerConfigure ParseTolerant getRandomPort cx d st =
     (let sslMode =
            (case GetOk_string (attr_sslmode d) of
               (sslModeRaw, True) \<Rightarrow> sslModeRaw
             | (sslModeRaw, False) \<Rightarrow>
                 (let sslModeDeprecated = Get_string (attr_ssl_mode d)
                  in if sslModeDeprecated \<noteq> '''' then sslModeDeprecated else ''''));
          versionStr = Get_string (attr_expected_version d);
          version = fst (ParseTolerant versionStr);
          host = Get_string (attr_host d);
          port = Get_int (attr_port d);
          (tunneled, g') = getRandomPort (host @ fmt_d port) (fst st);
          config =
            \<lparr>Scheme = Get_string (attr_scheme d),
             Host = host,
             Port = port,
             Username = Get_string (attr_username d),
             Password = Get_string (attr_password d),
             DatabaseUsername = Get_string (attr_database_username d),
             Superuser = Get_bool (attr_superuser d),
             SSLMode = sslMode,
             ApplicationName = ''Terraform provider'',
             ConnectTimeoutSec = Get_int (attr_connect_timeout d),
             MaxConns = Get_int (attr_max_connections d),
             ExpectedVersion = version,
             SSLRootCertPath = Get_string (attr_sslrootcert d),
             JumpHost = Get_string (attr_jumphost d),
             TunneledPort = tunneled,
             PasswordCommand = Get_string (attr_password_command d),
             ctx = cx,
             SSLClientCert = None\<rparr>;
          st' = (g', snd st)
      in case GetOk_list (attr_clientcert d) of
           (val, True) \<Rightarrow>
             (case val of
                [] \<Rightarrow> (Inl (Panic ''index out of range''), st')
              | Some spec # rest \<Rightarrow>
                  (Inr (NewClient
                     (config\<lparr>SSLClientCert :=
                        Some \<lparr>CertificatePath = cert spec, KeyPath = key spec\<rparr>\<rparr>)
                     (Get_string (attr_database d))), st')
              | None # rest \<Rightarrow> (Inr (NewClient config (Get_string (attr_database d))), st'))
         | (val, False) \<Rightarrow> (Inr (NewClient config (Get_string (attr_database d))), st'))"

text \<open>The descriptor of a returned client, \<open>None\<close> when the call did not return one.\<close>

definition assembled :: "(failure + 'ctx Client) \<times> 's \<Rightarrow> 'ctx Config option" where
  "assembled r = (case fst r of Inr (NewClient config database) \<Rightarrow> Some config | Inl e \<Rightarrow> None)"

section \<open>The schema's defaults (Provider)\<close>

text \<open>
  The environment variables the schema names. A string variable is what \<open>os.Getenv\<close>
  returns (empty when unset); the variables of an integer or boolean attribute are kept
  as the schema reader decodes them, \<open>None\<close> when the variable is unset or empty.
\<close>

record environ =
  PGHOST :: string
  PGPORT :: "int option"
  PGDATABASE :: string
  PGUSER :: string
  PGPASSWORD :: string
  PGSUPERUSER :: "bool option"
  PGSSLMODE :: string
  PGCONNECT_TIMEOUT :: "int option"

text \<open>\<open>schema.EnvDefaultFunc(k, dv)\<close>: the variable when it is not empty, \<open>dv\<close> otherwise.\<close>

definition EnvDefaultFunc :: "string \<Rightarrow> string option \<Rightarrow> string option" where
  "EnvDefaultFunc v dv = (if v \<noteq> '''' then Some v else dv)"

definition EnvDefaultFunc_decoded :: "'a option \<Rightarrow> 'a option \<Rightarrow> 'a option" where
  "EnvDefaultFunc_decoded v dv = (case v of Some x \<Rightarrow> Some x | None \<Rightarrow> dv)"

definition defaultProviderMaxOpenConnections :: int where
  "defaultProviderMaxOpenConnections = 20"

definition defaultExpectedPostgreSQLVersion :: string where
  "defaultExpectedPostgreSQLVersion = ''9.0.0''"

text \<open>
  The \<open>Default\<close> and \<open>DefaultFunc\<close> entries of the schema in \<open>Provider\<close>, key by key;
  \<open>None\<close> (for the block list, the empty list) where the schema gives none or \<open>nil\<close>.
\<close>

definition Provider_defaults :: "environ \<Rightarrow> ResourceData" where
  "Provider_defaults env =
     \<lparr>attr_scheme = Some ''postgres'',
      attr_host = EnvDefaultFunc (PGHOST env) None,
      attr_port = EnvDefaultFunc_decoded (PGPORT env) (Some 5432),
      attr_database = EnvDefaultFunc (PGDATABASE env) (Some ''postgres''),
      attr_username = EnvDefaultFunc (PGUSER env) (Some ''postgres''),
      attr_password = EnvDefaultFunc (PGPASSWORD env) None,
      attr_password_command = None,
      attr_database_username = None,
      attr_superuser = EnvDefaultFunc_decoded (PGSUPERUSER env) (Some True),
      attr_sslmode = EnvDefaultFunc (PGSSLMODE env) None,
      attr_ssl_mode = None,
      attr_clientcert = [],
      attr_sslrootcert = None,
      attr_connect_timeout = EnvDefaultFunc_decoded (PGCONNECT_TIMEOUT env) (Some 180),
      attr_max_connections = Some defaultProviderMaxOpenConnections,
      attr_expected_version = Some defaultExpectedPostgreSQLVersion,
      attr_jumphost = None\<rparr>"

text \<open>
  The schema reader builds the data of a configuration: the value the configuration
  gives for a key, and the key's default where it gives none. It reads a \<open>clientcert\<close>
  block all of whose fields are empty as a \<open>nil\<close> element.
\<close>

definition orDefault :: "'a option \<Rightarrow> 'a option \<Rightarrow> 'a option" where
  "orDefault r dv = (case r of Some v \<Rightarrow> Some v | None \<Rightarrow> dv)"

definition readBlock :: "ClientCertBlock option \<Rightarrow> ClientCertBlock option" where
  "readBlock b =
     (case b of
        Some spec \<Rightarrow> if cert spec = '''' \<and> key spec = '''' then None else Some spec
      | None \<Rightarrow> None)"

definition readConfig :: "ResourceData \<Rightarrow> ResourceData \<Rightarrow> ResourceData" where
  "readConfig dflt raw =
     \<lparr>attr_scheme = orDefault (attr_scheme raw) (attr_scheme dflt),
      attr_host = orDefault (attr_host raw) (attr_host dflt),
      attr_port = orDefault (attr_port raw) (attr_port dflt),
      attr_database = orDefault (attr_database raw) (attr_database dflt),
      attr_username = orDefault (attr_username raw) (attr_username dflt),
      attr_password = orDefault (attr_password raw) (attr_password dflt),
      attr_password_command = orDefault (attr_password_command raw) (attr_password_command dflt),
      attr_database_username =
        orDefault (attr_database_username raw) (attr_database_username dflt),
      attr_superuser = orDefault (attr_superuser raw) (attr_superuser dflt),
      attr_sslmode = orDefault (attr_sslmode raw) (attr_sslmode dflt),
      attr_ssl_mode = orDefault (attr_ssl_mode raw) (attr_ssl_mode dflt),
      attr_clientcert = map readBlock (attr_clientcert raw),
      attr_sslrootcert = orDefault (attr_sslrootcert raw) (attr_sslrootcert dflt),
      attr_connect_timeout = orDefault (attr_connect_timeout raw) (attr_connect_timeout dflt),
      attr_max_connections = orDefault (attr_max_connections raw) (attr_max_connections dflt),
      attr_expected_version =
        orDefault (attr_expected_version raw) (attr_expected_version dflt),
      attr_jumphost = orDefault (attr_jumphost raw) (attr_jumphost dflt)\<rparr>"

text \<open>
  The \<open>ValidateFunc\<close> entries of the schema in \<open>Provider\<close>, and the order in which the
  hosting framework uses the provider: it validates the configuration first and calls
  \<open>ConfigureFunc\<close> only when validation reported no error. A \<open>ValidateFunc\<close> runs on
  the value the configuration gives for its key and, where the key has a \<open>DefaultFunc\<close>
  (\<open>connect_timeout\<close>), on that default when the configuration gives none; a static
  \<open>Default\<close> is not validated. \<open>validation.StringInSlice\<close> and
  \<open>validation.IntAtLeast\<close> are library functions and parameters here.
\<close>

definition validated :: "'a option \<Rightarrow> ('a \<Rightarrow> go_error list) \<Rightarrow> go_error list" where
  "validated r f = (case r of Some v \<Rightarrow> f v | None \<Rightarrow> [])"

definition libraryChecks ::
  "(string list \<Rightarrow> string \<Rightarrow> string \<Rightarrow> go_error list) \<Rightarrow> (int \<Rightarrow> int \<Rightarrow> string \<Rightarrow> go_error list) \<Rightarrow>
     environ \<Rightarrow> ResourceData \<Rightarrow> go_error list" where
  "libraryChecks StringInSlice IntAtLeast env raw =
     validated (attr_scheme raw)
       (\<lambda>v. StringInSlice [''postgres'', ''awspostgres'', ''gcppostgres''] v ''scheme'')
     @ validated (orDefault (attr_connect_timeout raw) (attr_connect_timeout (Provider_defaults env)))
       (\<lambda>v. IntAtLeast (- 1) v ''connect_timeout'')
     @ validated (attr_max_connections raw) (\<lambda>v. IntAtLeast (- 1) v ''max_connections'')"

definition Provider_Validate ::
  "(string \<Rightarrow> Version \<times> go_error option) \<Rightarrow> (string \<Rightarrow> string) \<Rightarrow>
     (string list \<Rightarrow> string \<Rightarrow> string \<Rightarrow> go_error list) \<Rightarrow> (int \<Rightarrow> int \<Rightarrow> string \<Rightarrow> go_error list) \<Rightarrow>
     environ \<Rightarrow> ResourceData \<Rightarrow> go_error list" where
  "Provider_Validate ParseTolerant Quote StringInSlice IntAtLeast env raw =
     libraryChecks StringInSlice IntAtLeast env raw
     @ validated (attr_expected_version raw)
         (\<lambda>v. snd (validateExpectedVersion ParseTolerant Quote v ''expected_version''))"

text \<open>
  Configuration assembly as the framework runs it: \<open>Inl\<close> with the errors of validation
  when there are any, and otherwise \<open>Inr\<close> with what \<open>ConfigureFunc\<close>, that is
  \<open>providerConfigure\<close> on the data read from the configuration, returns.
\<close>

definition Provider_Configure ::
  "(string \<Rightarrow> Version \<times> go_error option) \<Rightarrow> (string \<Rightarrow> string) \<Rightarrow>
     (string list \<Rightarrow> string \<Rightarrow> string \<Rightarrow> go_error list) \<Rightarrow> (int \<Rightarrow> int \<Rightarrow> string \<Rightarrow> go_error list) \<Rightarrow>
     (string \<Rightarrow> 'g \<Rightarrow> int \<times> 'g) \<Rightarrow> 'ctx \<Rightarrow> environ \<Rightarrow> ResourceData \<Rightarrow> 'g \<times> spawned \<Rightarrow>
     go_error list + ((failure + 'ctx Client) \<times> ('g \<times> spawned))" where
  "Provider_Configure ParseTolerant Quote StringInSlice IntAtLeast getRandomPort cx env raw st =
     (let errors = Provider_Validate ParseTolerant Quote StringInSlice IntAtLeast env raw
      in if errors \<noteq> [] then Inl errors
         else Inr (providerConfigure ParseTolerant getRandomPort cx
                     (readConfig (Provider_defaults env) raw) st))"

text \<open>\<open>init\<close>: the process-wide generator is seeded once, from the clock.\<close>

definition init :: "(int \<Rightarrow> 'g) \<Rightarrow> int \<Rightarrow> 'g" where
  "init rand_Seed unixNano = rand_Seed unixNano"

section \<open>Parts outside the sources\<close>

text \<open>
  Modelled from the spec: \<open>getRandomPort\<close>, which \<open>providerConfigure\<close> calls, is not
  among the sources. Section 4.2, step 3: a local port in the range 1024 to 65535 is
  derived "by seeding a pseudo-random generator with a stable string built from host and
  port". The generator is a parameter: \<open>seedFrom\<close> gives the state a seed string sets,
  \<open>draw\<close> a number and the next state. The state found in the generator is overwritten.
\<close>

definition getRandomPort ::
  "(string \<Rightarrow> 'g) \<Rightarrow> ('g \<Rightarrow> nat \<times> 'g) \<Rightarrow> string \<Rightarrow> 'g \<Rightarrow> int \<times> 'g" where
  "getRandomPort seedFrom draw seed g =
     (let (r, g') = draw (seedFrom seed)
      in (1024 + int (r mod (65535 - 1024 + 1)), g'))"

text \<open>
  Modelled from the spec: the code that resolves the password from the descriptor is not
  among the sources. Section 4.2, step 4: a static password that is supplied is used
  verbatim; otherwise a non-empty password command is invoked through the process executor
  with the assembly's context, and its standard output, "trimmed of the trailing line
  terminator", is the password; with neither, the password is empty. Section 6: the
  executable is the one "named by configuration", so it is run without arguments.
\<close>

definition trimLineTerminator :: "string \<Rightarrow> string" where
  "trimLineTerminator s = (if s \<noteq> [] \<and> last s = CHR 0x0A then butlast s else s)"

definition resolvePassword ::
  "('ctx \<Rightarrow> string \<Rightarrow> string list \<Rightarrow> cmd_result) \<Rightarrow> 'ctx \<Rightarrow> ResourceData \<Rightarrow> spawned \<Rightarrow>
     (go_error + string) \<times> spawned" where
  "resolvePassword Run cx d procs =
     (case attr_password d of
        Some p \<Rightarrow> (Inr p, procs)
      | None \<Rightarrow>
          (let command = Get_string (attr_password_command d)
           in if command \<noteq> '''' then
                (case getCommandOutput Run cx command [] procs of
                   ((out, None), procs') \<Rightarrow> (Inr (trimLineTerminator out), procs')
                 | ((out, Some err), procs') \<Rightarrow> (Inl err, procs'))
              else (Inr '''', procs)))"

section \<open>Stand-ins for the examples\<close>

text \<open>
  The examples below need values for the parameters. \<open>exampleParse\<close> answers as
  \<open>semver.ParseTolerant\<close> does on the four strings the examples use: \<open>9.0.0\<close>, \<open>12\<close> and
  \<open>12.3\<close> parse, \<open>not-a-version\<close> is refused with the zero version and the library's
  error. It refuses every other string and stands for the library on these four only.
  \<open>exampleQuote\<close> agrees with the verb \<open>%q\<close> on strings that need no escape. The two
  example validators report what the library's validators report.
\<close>

definition exampleParse :: "string \<Rightarrow> Version \<times> go_error option" where
  "exampleParse s =
     (if s = ''9.0.0'' then (\<lparr>Major = 9, Minor = 0, Patch = 0, Pre = [], Build = []\<rparr>, None)
      else if s = ''12'' then (\<lparr>Major = 12, Minor = 0, Patch = 0, Pre = [], Build = []\<rparr>, None)
      else if s = ''12.3'' then (\<lparr>Major = 12, Minor = 3, Patch = 0, Pre = [], Build = []\<rparr>, None)
      else (zeroVersion,
            Some (ErrorString ''Short version cannot contain PreRelease/Build meta data'')))"

definition exampleStringInSlice :: "string list \<Rightarrow> string \<Rightarrow> string \<Rightarrow> go_error list" where
  "exampleStringInSlice valid v k =
     (if v \<in> set valid then []
      else [ErrorString (''expected '' @ k @ '' to be one of '' @ fmt_v valid @ '', got '' @ v)])"

definition exampleIntAtLeast :: "int \<Rightarrow> int \<Rightarrow> string \<Rightarrow> go_error list" where
  "exampleIntAtLeast m v k =
     (if v < m
      then [ErrorString (''expected '' @ k @ '' to be at least ('' @ fmt_d m @ ''), got '' @ fmt_d v)]
      else [])"

definition exampleQuote :: "string \<Rightarrow> string" where
  "exampleQuote s = [CHR 0x22] @ s @ [CHR 0x22]"

definition examplePort :: "string \<Rightarrow> nat \<Rightarrow> int \<times> nat" where
  "examplePort seed g = (1024 + int (length seed), Suc g)"

definition exampleRun :: "unit \<Rightarrow> string \<Rightarrow> string list \<Rightarrow> cmd_result" where
  "exampleRun cx command args =
     (if command = ''get-secret'' then \<lparr>stdout = ''secret'' @ [CHR 0x0A], stderr = '''', run_err = None\<rparr>
      else \<lparr>stdout = ''partial'', stderr = ''boom'', run_err = Some (ErrorString ''exit status 1'')\<rparr>)"

definition noAttributes :: ResourceData where
  "noAttributes =
     \<lparr>attr_scheme = None, attr_host = None, attr_port = None, attr_database = None,
      attr_username = None, attr_password = None, attr_password_command = None,
      attr_database_username = None, attr_superuser = None, attr_sslmode = None,
      attr_ssl_mode = None, attr_clientcert = [], attr_sslrootcert = None,
      attr_connect_timeout = None, attr_max_connections = None,
      attr_expected_version = None, attr_jumphost = None\<rparr>"

definition noEnvironment :: environ where
  "noEnvironment =
     \<lparr>PGHOST = '''', PGPORT = None, PGDATABASE = '''', PGUSER = '''', PGPASSWORD = '''',
      PGSUPERUSER = None, PGSSLMODE = '''', PGCONNECT_TIMEOUT = None\<rparr>"

section \<open>Facts about the helpers\<close>

lemma HasPrefix_append: "HasPrefix (pre @ rest) pre"
  by (simp add: HasPrefix_def)

lemma Contains_prefix: "Contains (sub @ post) sub"
proof (cases "sub @ post")
  case Nil
  then show ?thesis by simp
next
  case (Cons c cs)
  have "HasPrefix (sub @ post) sub" by (rule HasPrefix_append)
  with Cons show ?thesis by simp
qed

lemma Contains_infix: "Contains (pre @ sub @ post) sub"
proof (induction pre)
  case Nil
  show ?case using Contains_prefix by simp
next
  case (Cons c pre)
  then show ?case by simp
qed

lemma Contains_decompose: "Contains s sub \<Longrightarrow> \<exists>pre post. s = pre @ sub @ post"
proof (induction s)
  case Nil
  then show ?case by simp
next
  case (Cons c cs)
  show ?case
  proof (cases "HasPrefix (c # cs) sub")
    case True
    then have "c # cs = [] @ sub @ drop (length sub) (c # cs)"
      unfolding HasPrefix_def by (metis append_Nil append_take_drop_id)
    then show ?thesis by blast
  next
    case False
    with Cons.prems have "Contains cs sub" by simp
    then obtain pre post where "cs = pre @ sub @ post"
      using Cons.IH by blast
    then have "c # cs = (c # pre) @ sub @ post" by simp
    then show ?thesis by blast
  qed
qed

lemma Contains_trans:
  assumes "Contains s mid" and "Contains mid sub"
  shows "Contains s sub"
proof -
  obtain p1 q1 where s: "s = p1 @ mid @ q1"
    using Contains_decompose [OF assms(1)] by blast
  obtain p2 q2 where m: "mid = p2 @ sub @ q2"
    using Contains_decompose [OF assms(2)] by blast
  have "s = (p1 @ p2) @ sub @ (q2 @ q1)"
    by (simp add: s m)
  then show ?thesis
    by (metis Contains_infix)
qed

lemma Join_contains_arg: "a \<in> set args \<Longrightarrow> Contains (Join args sep) a"
proof (induction args sep rule: Join.induct)
  case (1 sep)
  then show ?case by simp
next
  case (2 b sep)
  then have "a = b" by simp
  then show ?case using Contains_infix [of "[]" a "[]"] by simp
next
  case (3 b c rest sep)
  show ?case
  proof (cases "a = b")
    case True
    then show ?thesis using Contains_infix [of "[]" a "sep @ Join (c # rest) sep"] by simp
  next
    case False
    with 3 have "Contains (Join (c # rest) sep) a" by simp
    then obtain pre post where "Join (c # rest) sep = pre @ a @ post"
      using Contains_decompose by blast
    then have "Join (b # c # rest) sep = (b @ sep @ pre) @ a @ post" by simp
    then show ?thesis by (metis Contains_infix)
  qed
qed

lemma fmt_v_contains_arg: "a \<in> set args \<Longrightarrow> Contains (fmt_v args) a"
proof -
  assume "a \<in> set args"
  then have "Contains (Join args '' '') a" by (rule Join_contains_arg)
  moreover have "Contains (fmt_v args) (Join args '' '')"
    unfolding fmt_v_def by (rule Contains_infix)
  ultimately show ?thesis using Contains_trans by blast
qed

section \<open>What the assembler returns\<close>

lemma providerConfigure_returns:
  "\<exists>config. providerConfigure P R cx d st =
     (Inr (NewClient config (Get_string (attr_database d))),
      (snd (R (Get_string (attr_host d) @ fmt_d (Get_int (attr_port d))) (fst st)), snd st))"
  unfolding providerConfigure_def GetOk_list_def Let_def
  by (simp split: prod.splits list.splits option.splits)

lemma assembled_SSLMode:
  "map_option SSLMode (assembled (providerConfigure P R cx d st)) =
     Some (if snd (GetOk_string (attr_sslmode d)) then fst (GetOk_string (attr_sslmode d))
           else Get_string (attr_ssl_mode d))"
  unfolding providerConfigure_def GetOk_list_def Let_def assembled_def
  by (simp split: prod.splits list.splits option.splits bool.splits)

lemma assembled_ExpectedVersion:
  "map_option ExpectedVersion (assembled (providerConfigure P R cx d st)) =
     Some (fst (P (Get_string (attr_expected_version d))))"
  unfolding providerConfigure_def GetOk_list_def Let_def assembled_def
  by (simp split: prod.splits list.splits option.splits bool.splits)

lemma assembled_Password:
  "map_option Password (assembled (providerConfigure P R cx d st)) =
     Some (Get_string (attr_password d))"
  unfolding providerConfigure_def GetOk_list_def Let_def assembled_def
  by (simp split: prod.splits list.splits option.splits bool.splits)

lemma assembled_PasswordCommand:
  "map_option PasswordCommand (assembled (providerConfigure P R cx d st)) =
     Some (Get_string (attr_password_command d))"
  unfolding providerConfigure_def GetOk_list_def Let_def assembled_def
  by (simp split: prod.splits list.splits option.splits bool.splits)

lemma assembled_MaxConns:
  "map_option MaxConns (assembled (providerConfigure P R cx d st)) =
     Some (Get_int (attr_max_connections d))"
  unfolding providerConfigure_def GetOk_list_def Let_def assembled_def
  by (simp split: prod.splits list.splits option.splits bool.splits)

lemma assembled_ConnectTimeoutSec:
  "map_option ConnectTimeoutSec (assembled (providerConfigure P R cx d st)) =
     Some (Get_int (attr_connect_timeout d))"
  unfolding providerConfigure_def GetOk_list_def Let_def assembled_def
  by (simp split: prod.splits list.splits option.splits bool.splits)

lemma assembled_TunneledPort:
  "map_option TunneledPort (assembled (providerConfigure P R cx d st)) =
     Some (fst (R (Get_string (attr_host d) @ fmt_d (Get_int (attr_port d))) (fst st)))"
  unfolding providerConfigure_def GetOk_list_def Let_def assembled_def
  by (simp split: prod.splits list.splits option.splits bool.splits)

lemma providerConfigure_spawns_nothing:
  "snd (snd (providerConfigure P R cx d st)) = snd st"
  using providerConfigure_returns [of P R cx d st] by auto

section \<open>The process executor reports a failed command\<close>

text \<open>
  C3. Whenever \<open>cmd.Run()\<close> returns an error (the process exited non-zero, could not be
  started, or was killed through its context), \<open>getCommandOutput\<close> returns the empty
  string and an error. The message of that error contains the command name, the argument
  list as \<open>%v\<close> prints it and so every single argument, all of the captured standard
  output, all of the captured standard error and the message of the cause; unwrapping the
  error gives the cause.
\<close>

theorem getCommandOutput_failure:
  assumes "run_err (Run cx command args) = Some cause"
  shows "\<exists>e. fst (getCommandOutput Run cx command args procs) = ('''', Some e)
           \<and> Contains (Error e) command
           \<and> Contains (Error e) (fmt_v args)
           \<and> (\<forall>a \<in> set args. Contains (Error e) a)
           \<and> Contains (Error e) (stdout (Run cx command args))
           \<and> Contains (Error e) (stderr (Run cx command args))
           \<and> Contains (Error e) (Error cause)
           \<and> Unwrap e = Some cause"
proof -
  define out where "out = stdout (Run cx command args)"
  define errout where "errout = stderr (Run cx command args)"
  define msg where
    "msg = ''failed to run '' @ command @ '' '' @ fmt_v args @ '' stdout '' @ out
             @ '' stderr '' @ errout @ '' '' @ Error cause"
  have result: "fst (getCommandOutput Run cx command args procs) = ('''', Some (WrapError msg cause))"
    using assms by (simp add: getCommandOutput_def Let_def msg_def out_def errout_def)
  have c_command: "Contains msg command"
    unfolding msg_def by (rule Contains_infix)
  have "msg = (''failed to run '' @ command @ '' '') @ fmt_v args
                @ ('' stdout '' @ out @ '' stderr '' @ errout @ '' '' @ Error cause)"
    by (simp add: msg_def)
  then have c_args: "Contains msg (fmt_v args)"
    by (metis Contains_infix)
  have c_each: "\<forall>a \<in> set args. Contains msg a"
    using c_args fmt_v_contains_arg Contains_trans by blast
  have "msg = (''failed to run '' @ command @ '' '' @ fmt_v args @ '' stdout '') @ out
                @ ('' stderr '' @ errout @ '' '' @ Error cause)"
    by (simp add: msg_def)
  then have c_out: "Contains msg out"
    by (metis Contains_infix)
  have "msg = (''failed to run '' @ command @ '' '' @ fmt_v args @ '' stdout '' @ out
                @ '' stderr '') @ errout @ ('' '' @ Error cause)"
    by (simp add: msg_def)
  then have c_err: "Contains msg errout"
    by (metis Contains_infix)
  have "msg = (''failed to run '' @ command @ '' '' @ fmt_v args @ '' stdout '' @ out
                @ '' stderr '' @ errout @ '' '') @ Error cause @ []"
    by (simp add: msg_def)
  then have c_cause: "Contains msg (Error cause)"
    by (metis Contains_infix)
  show ?thesis
    using result c_command c_args c_each c_out c_err c_cause
    by (simp add: out_def errout_def)
qed

theorem getCommandOutput_failure_witness:
  "run_err (exampleRun () ''sh'' [''-c'', ''exit 1'']) = Some (ErrorString ''exit status 1'')
   \<and> (\<exists>e. fst (getCommandOutput exampleRun () ''sh'' [''-c'', ''exit 1''] []) = ('''', Some e)
         \<and> Contains (Error e) ''sh''
         \<and> Contains (Error e) ''[-c exit 1]''
         \<and> Contains (Error e) ''exit 1''
         \<and> Contains (Error e) ''partial''
         \<and> Contains (Error e) ''boom''
         \<and> Contains (Error e) ''exit status 1''
         \<and> Unwrap e = Some (ErrorString ''exit status 1''))"
proof -
  have h: "run_err (exampleRun () ''sh'' [''-c'', ''exit 1'']) = Some (ErrorString ''exit status 1'')"
    by (simp add: exampleRun_def)
  have v: "fmt_v [''-c'', ''exit 1''] = ''[-c exit 1]''"
    by (simp add: fmt_v_def)
  have o: "stdout (exampleRun () ''sh'' [''-c'', ''exit 1'']) = ''partial''"
    and e: "stderr (exampleRun () ''sh'' [''-c'', ''exit 1'']) = ''boom''"
    by (simp_all add: exampleRun_def)
  show ?thesis
    using h getCommandOutput_failure [of exampleRun "()" "''sh''" "[''-c'', ''exit 1'']"
        "ErrorString ''exit status 1''" "[]"]
    unfolding v o e by auto
qed

section \<open>The assembler never fails\<close>

text \<open>
  C8. For every attribute set, every parser, every port function and every process state,
  \<open>providerConfigure\<close> returns a client: it returns no error and does not panic (the
  index into the \<open>clientcert\<close> list is guarded by \<open>GetOk\<close>).
\<close>

theorem providerConfigure_nil_error:
  "\<exists>client. fst (providerConfigure P R cx d st) = Inr client"
  using providerConfigure_returns [of P R cx d st] by auto

section \<open>The expected version\<close>

lemma expected_version_read:
  "Get_string (attr_expected_version (readConfig (Provider_defaults env) raw)) =
     (case attr_expected_version raw of Some v \<Rightarrow> v | None \<Rightarrow> ''9.0.0'')"
  by (simp add: readConfig_def Provider_defaults_def orDefault_def Get_string_def
      defaultExpectedPostgreSQLVersion_def split: option.splits)

text \<open>
  C1. For every configuration and environment, let \<open>s\<close> be the expected-version string of
  the attribute set: the string the configuration gives, or the default \<open>9.0.0\<close> (which
  the library parses) when it gives none. When the configuration gives a string that does
  not parse, configuration assembly ends in validation with an error that wraps the
  parser's error and names the quoted string, and \<open>providerConfigure\<close> is not run, so no
  descriptor with a defaulted version is built. When \<open>s\<close> parses, no error comes from the
  version, and once the library's checks of the other keys pass, assembly is the call of
  \<open>providerConfigure\<close>, whose descriptor holds the parsed version.
\<close>

theorem unparsed_version_fails_assembly:
  assumes "s = Get_string (attr_expected_version (readConfig (Provider_defaults env) raw))"
  shows "(attr_expected_version raw = None \<longrightarrow> s = defaultExpectedPostgreSQLVersion)
     \<and> (\<forall>err. attr_expected_version raw = Some s \<and> snd (P s) = Some err \<longrightarrow>
            (\<exists>errs e. Provider_Configure P Q SIS IAL R cx env raw st = Inl errs \<and> e \<in> set errs
                \<and> Unwrap e = Some err \<and> Contains (Error e) (Q s)
                \<and> Contains (Error e) (Error err)))
     \<and> (snd (P s) = None \<longrightarrow>
            Provider_Validate P Q SIS IAL env raw = libraryChecks SIS IAL env raw)
     \<and> (snd (P s) = None \<and> libraryChecks SIS IAL env raw = [] \<longrightarrow>
            Provider_Configure P Q SIS IAL R cx env raw st =
              Inr (providerConfigure P R cx (readConfig (Provider_defaults env) raw) st)
          \<and> map_option ExpectedVersion (assembled
               (providerConfigure P R cx (readConfig (Provider_defaults env) raw) st)) =
              Some (fst (P s)))"
proof -
  have s_eq: "s = (case attr_expected_version raw of Some v \<Rightarrow> v | None \<Rightarrow> ''9.0.0'')"
    using assms by (simp add: expected_version_read)
  have unsupplied: "s = defaultExpectedPostgreSQLVersion" if "attr_expected_version raw = None"
    using that s_eq by (simp add: defaultExpectedPostgreSQLVersion_def)
  have rejected: "\<exists>errs e. Provider_Configure P Q SIS IAL R cx env raw st = Inl errs \<and> e \<in> set errs
      \<and> Unwrap e = Some err \<and> Contains (Error e) (Q s) \<and> Contains (Error e) (Error err)"
    if supplied: "attr_expected_version raw = Some s" and bad: "snd (P s) = Some err" for err
  proof -
    define msg where "msg = ''invalid version ('' @ Q s @ ''): '' @ Error err"
    define errs where "errs = libraryChecks SIS IAL env raw @ [WrapError msg err]"
    have "Provider_Validate P Q SIS IAL env raw = errs"
      by (simp add: Provider_Validate_def validated_def validateExpectedVersion_def supplied bad
          errs_def msg_def)
    then have "Provider_Configure P Q SIS IAL R cx env raw st = Inl errs"
      by (simp add: Provider_Configure_def errs_def)
    moreover have "WrapError msg err \<in> set errs"
      by (simp add: errs_def)
    moreover have "Contains msg (Q s)"
      unfolding msg_def by (rule Contains_infix)
    moreover have "msg = (''invalid version ('' @ Q s @ ''): '') @ Error err @ []"
      by (simp add: msg_def)
    then have "Contains msg (Error err)"
      by (metis Contains_infix)
    ultimately show ?thesis
      by (intro exI [of _ errs] exI [of _ "WrapError msg err"]) simp
  qed
  have silent: "Provider_Validate P Q SIS IAL env raw = libraryChecks SIS IAL env raw"
    if good: "snd (P s) = None"
    using good s_eq
    by (cases "attr_expected_version raw")
      (simp_all add: Provider_Validate_def validated_def validateExpectedVersion_def)
  have proceeds: "Provider_Configure P Q SIS IAL R cx env raw st =
        Inr (providerConfigure P R cx (readConfig (Provider_defaults env) raw) st)"
    if "snd (P s) = None" and "libraryChecks SIS IAL env raw = []"
    using silent [OF that(1)] that(2) by (simp add: Provider_Configure_def)
  have version: "map_option ExpectedVersion (assembled
        (providerConfigure P R cx (readConfig (Provider_defaults env) raw) st)) = Some (fst (P s))"
    by (simp add: assembled_ExpectedVersion assms)
  show ?thesis
    using unsupplied rejected silent proceeds version by blast
qed

theorem unparsed_version_fails_assembly_witness:
  "snd (exampleParse defaultExpectedPostgreSQLVersion) = None
   \<and> snd (exampleParse ''not-a-version'') =
       Some (ErrorString ''Short version cannot contain PreRelease/Build meta data'')
   \<and> (\<exists>errs e. Provider_Configure exampleParse exampleQuote exampleStringInSlice exampleIntAtLeast
          examplePort () noEnvironment
          (noAttributes\<lparr>attr_expected_version := Some ''not-a-version''\<rparr>) (0, []) = Inl errs
        \<and> e \<in> set errs
        \<and> Unwrap e = Some (ErrorString ''Short version cannot contain PreRelease/Build meta data'')
        \<and> Contains (Error e) (exampleQuote ''not-a-version''))
   \<and> snd (exampleParse ''12.3'') = None
   \<and> libraryChecks exampleStringInSlice exampleIntAtLeast noEnvironment
        (noAttributes\<lparr>attr_expected_version := Some ''12.3''\<rparr>) = []
   \<and> Provider_Configure exampleParse exampleQuote exampleStringInSlice exampleIntAtLeast
        examplePort () noEnvironment (noAttributes\<lparr>attr_expected_version := Some ''12.3''\<rparr>) (0, []) =
       Inr (providerConfigure exampleParse examplePort ()
              (readConfig (Provider_defaults noEnvironment)
                 (noAttributes\<lparr>attr_expected_version := Some ''12.3''\<rparr>)) (0, []))
   \<and> map_option ExpectedVersion (assembled (providerConfigure exampleParse examplePort ()
        (readConfig (Provider_defaults noEnvironment)
           (noAttributes\<lparr>attr_expected_version := Some ''12.3''\<rparr>)) (0, []))) =
       Some \<lparr>Major = 12, Minor = 3, Patch = 0, Pre = [], Build = []\<rparr>"
proof -
  let ?bad = "noAttributes\<lparr>attr_expected_version := Some ''not-a-version''\<rparr>"
  let ?good = "noAttributes\<lparr>attr_expected_version := Some ''12.3''\<rparr>"
  have dflt: "snd (exampleParse defaultExpectedPostgreSQLVersion) = None"
    by (simp add: exampleParse_def defaultExpectedPostgreSQLVersion_def)
  have sb: "''not-a-version'' =
      Get_string (attr_expected_version (readConfig (Provider_defaults noEnvironment) ?bad))"
    by (simp add: expected_version_read)
  have sg: "''12.3'' =
      Get_string (attr_expected_version (readConfig (Provider_defaults noEnvironment) ?good))"
    by (simp add: expected_version_read)
  have pb: "snd (exampleParse ''not-a-version'') =
      Some (ErrorString ''Short version cannot contain PreRelease/Build meta data'')"
    by (simp add: exampleParse_def)
  have pg: "snd (exampleParse ''12.3'') = None"
    "fst (exampleParse ''12.3'') = \<lparr>Major = 12, Minor = 3, Patch = 0, Pre = [], Build = []\<rparr>"
    by (simp_all add: exampleParse_def)
  have lib: "libraryChecks exampleStringInSlice exampleIntAtLeast noEnvironment ?good = []"
    by (simp add: libraryChecks_def validated_def orDefault_def Provider_defaults_def
        EnvDefaultFunc_decoded_def noEnvironment_def noAttributes_def exampleIntAtLeast_def)
  note bad = unparsed_version_fails_assembly [where P = exampleParse and s = "''not-a-version''"
      and env = noEnvironment and raw = ?bad and Q = exampleQuote and SIS = exampleStringInSlice
      and IAL = exampleIntAtLeast and R = examplePort and cx = "()" and st = "(0, [])",
      OF sb]
  note good = unparsed_version_fails_assembly [where P = exampleParse and s = "''12.3''"
      and env = noEnvironment and raw = ?good and Q = exampleQuote and SIS = exampleStringInSlice
      and IAL = exampleIntAtLeast and R = examplePort and cx = "()" and st = "(0, [])",
      OF sg]
  have first: "\<exists>errs e. Provider_Configure exampleParse exampleQuote exampleStringInSlice
          exampleIntAtLeast examplePort () noEnvironment ?bad (0, []) = Inl errs
        \<and> e \<in> set errs
        \<and> Unwrap e = Some (ErrorString ''Short version cannot contain PreRelease/Build meta data'')
        \<and> Contains (Error e) (exampleQuote ''not-a-version'')"
    using bad pb by auto
  have second: "Provider_Configure exampleParse exampleQuote exampleStringInSlice exampleIntAtLeast
        examplePort () noEnvironment ?good (0, []) =
       Inr (providerConfigure exampleParse examplePort ()
              (readConfig (Provider_defaults noEnvironment) ?good) (0, []))
     \<and> map_option ExpectedVersion (assembled (providerConfigure exampleParse examplePort ()
        (readConfig (Provider_defaults noEnvironment) ?good) (0, []))) =
       Some (fst (exampleParse ''12.3''))"
    using good pg(1) lib by blast
  show ?thesis
    using dflt pb pg lib first second by simp
qed

section \<open>The SSL mode\<close>

lemma GetOk_string_cases:
  "GetOk_string None = ('''', False)"
  "GetOk_string (Some '''') = ('''', False)"
  "v \<noteq> '''' \<Longrightarrow> GetOk_string (Some v) = (v, True)"
  by (simp_all add: GetOk_string_def Get_string_def)

lemma sslmode_read:
  "attr_sslmode (readConfig (Provider_defaults env) raw) =
     (case attr_sslmode raw of
        Some v \<Rightarrow> Some v
      | None \<Rightarrow> if PGSSLMODE env \<noteq> '''' then Some (PGSSLMODE env) else None)"
  by (simp add: readConfig_def Provider_defaults_def orDefault_def EnvDefaultFunc_def
      split: option.splits)

lemma ssl_mode_read:
  "attr_ssl_mode (readConfig (Provider_defaults env) raw) = attr_ssl_mode raw"
  by (simp add: readConfig_def Provider_defaults_def orDefault_def split: option.splits)

text \<open>
  C2, as the code has it. For every configuration and environment, the descriptor's SSL
  mode is the \<open>sslmode\<close> attribute whenever the configuration gives it a non-empty string,
  so also when \<open>ssl_mode\<close> is given as well. When the configuration does not give
  \<open>sslmode\<close> and the environment variable \<open>PGSSLMODE\<close> is not empty, the SSL mode is the
  value of that variable, the schema's default for \<open>sslmode\<close>. In the remaining cases,
  \<open>sslmode\<close> given as the empty string, or not given with \<open>PGSSLMODE\<close> empty, the SSL
  mode is what \<open>Get\<close> returns for the deprecated \<open>ssl_mode\<close>: its value when the
  configuration gives one, the empty string otherwise.
\<close>

theorem sslmode_precedence:
  "(\<forall>v. attr_sslmode raw = Some v \<and> v \<noteq> '''' \<longrightarrow>
        map_option SSLMode (assembled
          (providerConfigure P R cx (readConfig (Provider_defaults env) raw) st)) = Some v)
   \<and> (attr_sslmode raw = None \<and> PGSSLMODE env \<noteq> '''' \<longrightarrow>
        map_option SSLMode (assembled
          (providerConfigure P R cx (readConfig (Provider_defaults env) raw) st)) =
          Some (PGSSLMODE env))
   \<and> (attr_sslmode raw = Some '''' \<or> (attr_sslmode raw = None \<and> PGSSLMODE env = '''') \<longrightarrow>
        map_option SSLMode (assembled
          (providerConfigure P R cx (readConfig (Provider_defaults env) raw) st)) =
          Some (Get_string (attr_ssl_mode raw)))
   \<and> (\<forall>w. (attr_sslmode raw = Some '''' \<or> (attr_sslmode raw = None \<and> PGSSLMODE env = ''''))
          \<and> attr_ssl_mode raw = Some w \<longrightarrow>
        map_option SSLMode (assembled
          (providerConfigure P R cx (readConfig (Provider_defaults env) raw) st)) = Some w)"
proof -
  let ?mode = "map_option SSLMode (assembled
      (providerConfigure P R cx (readConfig (Provider_defaults env) raw) st))"
  have given: "?mode = Some v" if "attr_sslmode raw = Some v" and "v \<noteq> ''''" for v
    using that by (simp add: assembled_SSLMode sslmode_read GetOk_string_cases)
  have from_env: "?mode = Some (PGSSLMODE env)"
    if "attr_sslmode raw = None" and "PGSSLMODE env \<noteq> ''''"
    using that by (simp add: assembled_SSLMode sslmode_read GetOk_string_cases)
  have fallback: "?mode = Some (Get_string (attr_ssl_mode raw))"
    if "attr_sslmode raw = Some '''' \<or> (attr_sslmode raw = None \<and> PGSSLMODE env = '''')"
    using that by (auto simp: assembled_SSLMode sslmode_read ssl_mode_read GetOk_string_cases)
  have deprecated: "?mode = Some w"
    if "attr_sslmode raw = Some '''' \<or> (attr_sslmode raw = None \<and> PGSSLMODE env = '''')"
      and "attr_ssl_mode raw = Some w" for w
    using fallback [OF that(1)] that(2) by (simp add: Get_string_def)
  show ?thesis
    using given from_env fallback deprecated by blast
qed

theorem sslmode_precedence_witness:
  "map_option SSLMode (assembled (providerConfigure exampleParse examplePort ()
      (readConfig (Provider_defaults noEnvironment)
         (noAttributes\<lparr>attr_sslmode := Some ''require'', attr_ssl_mode := Some ''disable''\<rparr>))
      (0, []))) = Some ''require''
   \<and> map_option SSLMode (assembled (providerConfigure exampleParse examplePort ()
      (readConfig (Provider_defaults (noEnvironment\<lparr>PGSSLMODE := ''verify-ca''\<rparr>)) noAttributes)
      (0, []))) = Some ''verify-ca''
   \<and> map_option SSLMode (assembled (providerConfigure exampleParse examplePort ()
      (readConfig (Provider_defaults noEnvironment) (noAttributes\<lparr>attr_ssl_mode := Some ''disable''\<rparr>))
      (0, []))) = Some ''disable''"
proof -
  let ?both = "noAttributes\<lparr>attr_sslmode := Some ''require'', attr_ssl_mode := Some ''disable''\<rparr>"
  let ?old = "noAttributes\<lparr>attr_ssl_mode := Some ''disable''\<rparr>"
  let ?env = "noEnvironment\<lparr>PGSSLMODE := ''verify-ca''\<rparr>"
  have a: "attr_sslmode ?both = Some ''require''"
    by simp
  have b: "attr_sslmode ?old = None" "attr_ssl_mode ?old = Some ''disable''"
    "PGSSLMODE noEnvironment = ''''"
    by (simp_all add: noAttributes_def noEnvironment_def)
  have c: "attr_sslmode noAttributes = None" "PGSSLMODE ?env = ''verify-ca''"
    by (simp_all add: noAttributes_def)
  have "map_option SSLMode (assembled (providerConfigure exampleParse examplePort ()
      (readConfig (Provider_defaults noEnvironment) ?both) (0, []))) = Some ''require''"
    using a sslmode_precedence [of ?both exampleParse examplePort "()" noEnvironment "(0, [])"]
    by simp
  moreover have "map_option SSLMode (assembled (providerConfigure exampleParse examplePort ()
      (readConfig (Provider_defaults ?env) noAttributes) (0, []))) = Some ''verify-ca''"
    using c sslmode_precedence [of noAttributes exampleParse examplePort "()" ?env "(0, [])"]
    by simp
  moreover have "map_option SSLMode (assembled (providerConfigure exampleParse examplePort ()
      (readConfig (Provider_defaults noEnvironment) ?old) (0, []))) = Some ''disable''"
    using b sslmode_precedence [of ?old exampleParse examplePort "()" noEnvironment "(0, [])"]
    by simp
  ultimately show ?thesis by simp
qed

text \<open>
  The sentence of the specification fails in two places. Where \<open>sslmode\<close> is explicitly
  set to the empty string and \<open>ssl_mode\<close> is set, both are set and the SSL mode is not
  the value of \<open>sslmode\<close>. Where \<open>sslmode\<close> is not set, \<open>ssl_mode\<close> is, and \<open>PGSSLMODE\<close>
  is set in the environment, the SSL mode is not the value of \<open>ssl_mode\<close>.
\<close>

theorem sslmode_counterexample:
  "attr_sslmode (noAttributes\<lparr>attr_sslmode := Some '''', attr_ssl_mode := Some ''require''\<rparr>) = Some ''''
   \<and> attr_ssl_mode (noAttributes\<lparr>attr_sslmode := Some '''', attr_ssl_mode := Some ''require''\<rparr>)
       = Some ''require''
   \<and> map_option SSLMode (assembled (providerConfigure exampleParse examplePort ()
        (noAttributes\<lparr>attr_sslmode := Some '''', attr_ssl_mode := Some ''require''\<rparr>) (0, []))) =
       Some ''require''
   \<and> map_option SSLMode (assembled (providerConfigure exampleParse examplePort ()
        (readConfig (Provider_defaults noEnvironment)
           (noAttributes\<lparr>attr_sslmode := Some '''', attr_ssl_mode := Some ''require''\<rparr>)) (0, []))) =
       Some ''require''
   \<and> attr_sslmode (noAttributes\<lparr>attr_ssl_mode := Some ''require''\<rparr>) = None
   \<and> attr_ssl_mode (noAttributes\<lparr>attr_ssl_mode := Some ''require''\<rparr>) = Some ''require''
   \<and> map_option SSLMode (assembled (providerConfigure exampleParse examplePort ()
        (readConfig (Provider_defaults (noEnvironment\<lparr>PGSSLMODE := ''verify-ca''\<rparr>))
           (noAttributes\<lparr>attr_ssl_mode := Some ''require''\<rparr>)) (0, []))) =
       Some ''verify-ca''"
  by (simp add: assembled_SSLMode sslmode_read ssl_mode_read GetOk_string_cases Get_string_def
      noAttributes_def)

text \<open>
  C9. When \<open>sslmode\<close> is explicitly set to the empty string, \<open>GetOk\<close> answers that it is
  not set, the assembler returns exactly what it returns with \<open>sslmode\<close> absent, and the
  SSL mode is the value of the deprecated \<open>ssl_mode\<close> when that one is set (and empty
  when it is not).
\<close>

theorem sslmode_empty_is_unset:
  assumes "attr_sslmode d = Some ''''"
  shows "snd (GetOk_string (attr_sslmode d)) = False
     \<and> providerConfigure P R cx d st = providerConfigure P R cx (d\<lparr>attr_sslmode := None\<rparr>) st
     \<and> map_option SSLMode (assembled (providerConfigure P R cx d st)) =
         Some (Get_string (attr_ssl_mode d))
     \<and> (\<forall>w. attr_ssl_mode d = Some w \<longrightarrow>
           map_option SSLMode (assembled (providerConfigure P R cx d st)) = Some w)"
proof -
  have ok: "GetOk_string (attr_sslmode d) = ('''', False)"
    using assms by (simp add: GetOk_string_cases)
  have same: "providerConfigure P R cx d st = providerConfigure P R cx (d\<lparr>attr_sslmode := None\<rparr>) st"
    unfolding providerConfigure_def Let_def ok
    by (simp add: GetOk_string_cases
        cong: prod.case_cong list.case_cong option.case_cong bool.case_cong)
  have mode: "map_option SSLMode (assembled (providerConfigure P R cx d st)) =
      Some (Get_string (attr_ssl_mode d))"
    by (simp add: assembled_SSLMode ok)
  then have "\<forall>w. attr_ssl_mode d = Some w \<longrightarrow>
      map_option SSLMode (assembled (providerConfigure P R cx d st)) = Some w"
    by (auto simp: Get_string_def)
  with ok same mode show ?thesis by simp
qed

theorem sslmode_empty_is_unset_witness:
  "attr_sslmode (noAttributes\<lparr>attr_sslmode := Some '''', attr_ssl_mode := Some ''verify-full''\<rparr>) = Some ''''
   \<and> snd (GetOk_string (Some '''')) = False
   \<and> map_option SSLMode (assembled (providerConfigure exampleParse examplePort ()
        (noAttributes\<lparr>attr_sslmode := Some '''', attr_ssl_mode := Some ''verify-full''\<rparr>) (0, []))) =
       Some ''verify-full''"
proof -
  have h: "attr_sslmode (noAttributes\<lparr>attr_sslmode := Some '''', attr_ssl_mode := Some ''verify-full''\<rparr>)
      = Some ''''"
    by simp
  have gone: "snd (GetOk_string (Some '''')) = False"
    by (simp add: GetOk_string_cases)
  have "map_option SSLMode (assembled (providerConfigure exampleParse examplePort ()
        (noAttributes\<lparr>attr_sslmode := Some '''', attr_ssl_mode := Some ''verify-full''\<rparr>) (0, []))) =
      Some (Get_string (attr_ssl_mode
        (noAttributes\<lparr>attr_sslmode := Some '''', attr_ssl_mode := Some ''verify-full''\<rparr>)))"
    using sslmode_empty_is_unset [OF h, of exampleParse examplePort "()" "(0, [])"] by blast
  then show ?thesis
    using h gone by (simp add: Get_string_def)
qed

section \<open>The password\<close>

text \<open>
  C5. When the attribute set holds both a static password and a password command, the
  descriptor's password is the static password; the command is only stored in the
  descriptor, and \<open>providerConfigure\<close> starts no process: the list of spawned processes
  is the one it was called with. With the password resolution of the spec, the resolved
  password is the static password as well, and resolving it starts no process.
\<close>

theorem static_password_used_no_command_run:
  assumes "attr_password d = Some p" and "attr_password_command d = Some c"
  shows "map_option Password (assembled (providerConfigure P R cx d (g, procs))) = Some p
     \<and> map_option PasswordCommand (assembled (providerConfigure P R cx d (g, procs))) = Some c
     \<and> snd (snd (providerConfigure P R cx d (g, procs))) = procs
     \<and> resolvePassword Run cx' d procs = (Inr p, procs)"
  using assms
  by (simp add: assembled_Password assembled_PasswordCommand providerConfigure_spawns_nothing
      Get_string_def resolvePassword_def)

theorem static_password_used_no_command_run_witness:
  "attr_password (noAttributes\<lparr>attr_password := Some ''hunter2'', attr_password_command := Some ''get-secret''\<rparr>)
     = Some ''hunter2''
   \<and> attr_password_command (noAttributes\<lparr>attr_password := Some ''hunter2'', attr_password_command := Some ''get-secret''\<rparr>)
     = Some ''get-secret''
   \<and> map_option Password (assembled (providerConfigure exampleParse examplePort ()
        (noAttributes\<lparr>attr_password := Some ''hunter2'', attr_password_command := Some ''get-secret''\<rparr>)
        (0, []))) = Some ''hunter2''
   \<and> snd (snd (providerConfigure exampleParse examplePort ()
        (noAttributes\<lparr>attr_password := Some ''hunter2'', attr_password_command := Some ''get-secret''\<rparr>)
        (0, []))) = []
   \<and> resolvePassword exampleRun ()
        (noAttributes\<lparr>attr_password := Some ''hunter2'', attr_password_command := Some ''get-secret''\<rparr>)
        [] = (Inr ''hunter2'', [])"
proof -
  have h1: "attr_password (noAttributes\<lparr>attr_password := Some ''hunter2'', attr_password_command := Some ''get-secret''\<rparr>)
     = Some ''hunter2''"
    by simp
  have h2: "attr_password_command (noAttributes\<lparr>attr_password := Some ''hunter2'', attr_password_command := Some ''get-secret''\<rparr>)
     = Some ''get-secret''"
    by simp
  show ?thesis
    using h1 h2 static_password_used_no_command_run [OF h1 h2, of exampleParse examplePort "()" 0 "[]"
        exampleRun "()"]
    by simp
qed

section \<open>The defaults\<close>

lemma readConfig_defaults:
  "attr_max_connections raw = None \<Longrightarrow>
     Get_int (attr_max_connections (readConfig (Provider_defaults env) raw)) = 20"
  "attr_expected_version raw = None \<Longrightarrow>
     Get_string (attr_expected_version (readConfig (Provider_defaults env) raw)) = ''9.0.0''"
  "attr_connect_timeout raw = None \<Longrightarrow>
     Get_int (attr_connect_timeout (readConfig (Provider_defaults env) raw)) =
       (case PGCONNECT_TIMEOUT env of Some t \<Rightarrow> t | None \<Rightarrow> 180)"
  by (simp_all add: readConfig_def Provider_defaults_def orDefault_def Get_int_def Get_string_def
      EnvDefaultFunc_decoded_def defaultProviderMaxOpenConnections_def
      defaultExpectedPostgreSQLVersion_def split: option.splits)

text \<open>
  C7, as the code has it. For a configuration that does not give \<open>max_connections\<close> the
  descriptor has 20 open connections at most; for one that does not give
  \<open>expected_version\<close> it has the version parsed from \<open>9.0.0\<close>; for one that does not
  give \<open>connect_timeout\<close> the timeout is the value of the environment variable
  \<open>PGCONNECT_TIMEOUT\<close> when that is set, and 180 seconds only when it is not.
\<close>

theorem defaults_applied:
  "(attr_max_connections raw = None \<longrightarrow>
      map_option MaxConns (assembled
        (providerConfigure P R cx (readConfig (Provider_defaults env) raw) st)) = Some 20)
   \<and> (attr_expected_version raw = None \<longrightarrow>
      map_option ExpectedVersion (assembled
        (providerConfigure P R cx (readConfig (Provider_defaults env) raw) st)) =
        Some (fst (P ''9.0.0'')))
   \<and> (attr_connect_timeout raw = None \<and> PGCONNECT_TIMEOUT env = None \<longrightarrow>
      map_option ConnectTimeoutSec (assembled
        (providerConfigure P R cx (readConfig (Provider_defaults env) raw) st)) = Some 180)
   \<and> (\<forall>t. attr_connect_timeout raw = None \<and> PGCONNECT_TIMEOUT env = Some t \<longrightarrow>
      map_option ConnectTimeoutSec (assembled
        (providerConfigure P R cx (readConfig (Provider_defaults env) raw) st)) = Some t)"
  by (simp add: assembled_MaxConns assembled_ExpectedVersion assembled_ConnectTimeoutSec
      readConfig_defaults)

theorem defaults_applied_witness:
  "attr_max_connections noAttributes = None \<and> attr_expected_version noAttributes = None
   \<and> attr_connect_timeout noAttributes = None \<and> PGCONNECT_TIMEOUT noEnvironment = None
   \<and> map_option MaxConns (assembled (providerConfigure exampleParse examplePort ()
        (readConfig (Provider_defaults noEnvironment) noAttributes) (0, []))) = Some 20
   \<and> map_option ExpectedVersion (assembled (providerConfigure exampleParse examplePort ()
        (readConfig (Provider_defaults noEnvironment) noAttributes) (0, []))) =
       Some \<lparr>Major = 9, Minor = 0, Patch = 0, Pre = [], Build = []\<rparr>
   \<and> map_option ConnectTimeoutSec (assembled (providerConfigure exampleParse examplePort ()
        (readConfig (Provider_defaults noEnvironment) noAttributes) (0, []))) = Some 180"
proof -
  have h: "attr_max_connections noAttributes = None" "attr_expected_version noAttributes = None"
    "attr_connect_timeout noAttributes = None" "PGCONNECT_TIMEOUT noEnvironment = None"
    by (simp_all add: noAttributes_def noEnvironment_def)
  have v: "fst (exampleParse ''9.0.0'') = \<lparr>Major = 9, Minor = 0, Patch = 0, Pre = [], Build = []\<rparr>"
    by (simp add: exampleParse_def)
  show ?thesis
    using h v defaults_applied [of noAttributes exampleParse examplePort "()" noEnvironment "(0, [])"]
    by simp
qed

text \<open>
  The sentence of the specification fails for the timeout: with \<open>PGCONNECT_TIMEOUT\<close>
  set to 30 and no \<open>connect_timeout\<close> in the configuration the descriptor's timeout is
  30, not 180.
\<close>

theorem connect_timeout_env_counterexample:
  "attr_connect_timeout noAttributes = None
   \<and> map_option ConnectTimeoutSec (assembled (providerConfigure exampleParse examplePort ()
        (readConfig (Provider_defaults (noEnvironment\<lparr>PGCONNECT_TIMEOUT := Some 30\<rparr>)) noAttributes)
        (0, []))) = Some 30"
proof -
  have "attr_connect_timeout noAttributes = None"
    by (simp add: noAttributes_def)
  then show ?thesis
    by (simp add: assembled_ConnectTimeoutSec readConfig_defaults)
qed

section \<open>The tunnel port\<close>

lemma digits_small: "n < 10 \<Longrightarrow> digits n = [''0123456789'' ! n]"
  by (simp add: digits.simps)

lemma digits_step: "10 \<le> n \<Longrightarrow> digits n = digits (n div 10) @ [''0123456789'' ! (n mod 10)]"
  by (subst digits.simps) simp

lemma seed_collision: "''a1'' @ fmt_d 1 = ''a'' @ fmt_d 11"
  by (simp add: fmt_d_def digits_small digits_step)

lemma getRandomPort_range:
  "1024 \<le> fst (getRandomPort seedFrom draw seed g) \<and> fst (getRandomPort seedFrom draw seed g) \<le> 65535"
proof -
  obtain r g' where d: "draw (seedFrom seed) = (r, g')"
    by (cases "draw (seedFrom seed)")
  have "r mod 64512 < 64512" by simp
  then have "int (r mod 64512) \<le> 64511" by linarith
  then show ?thesis
    by (simp add: getRandomPort_def d)
qed

lemma getRandomPort_reseeds:
  "getRandomPort seedFrom draw seed g1 = getRandomPort seedFrom draw seed g2"
  by (simp add: getRandomPort_def)

text \<open>
  C6. With the tunnel-port derivation of the spec, the tunnel port of every descriptor lies
  between 1024 and 65535, and two assemblies with the same host and the same port get the
  same tunnel port, in whatever states of the process-wide generator they run: the state
  \<open>init\<close> has set, or the state an earlier assembly has left.
\<close>

theorem tunnel_port_in_range_and_repeatable:
  "(\<exists>p. map_option TunneledPort
           (assembled (providerConfigure P (getRandomPort seedFrom draw) cx d st)) = Some p
        \<and> 1024 \<le> p \<and> p \<le> 65535)
   \<and> (Get_string (attr_host d) = Get_string (attr_host d')
        \<and> Get_int (attr_port d) = Get_int (attr_port d') \<longrightarrow>
      map_option TunneledPort
        (assembled (providerConfigure P (getRandomPort seedFrom draw) cx d st)) =
      map_option TunneledPort
        (assembled (providerConfigure P' (getRandomPort seedFrom draw) cx' d' st')))"
proof -
  have "\<exists>p. map_option TunneledPort
           (assembled (providerConfigure P (getRandomPort seedFrom draw) cx d st)) = Some p
        \<and> 1024 \<le> p \<and> p \<le> 65535"
    using getRandomPort_range [of seedFrom draw] by (simp add: assembled_TunneledPort)
  moreover have "map_option TunneledPort
        (assembled (providerConfigure P (getRandomPort seedFrom draw) cx d st)) =
      map_option TunneledPort
        (assembled (providerConfigure P' (getRandomPort seedFrom draw) cx' d' st'))"
    if "Get_string (attr_host d) = Get_string (attr_host d')"
      and "Get_int (attr_port d) = Get_int (attr_port d')"
    using that getRandomPort_reseeds [of seedFrom draw _ "fst st" "fst st'"]
    by (simp add: assembled_TunneledPort)
  ultimately show ?thesis by blast
qed

theorem tunnel_port_in_range_and_repeatable_witness:
  "map_option TunneledPort (assembled (providerConfigure exampleParse
      (getRandomPort length (\<lambda>g. (7919 * g + 100000, Suc g))) ()
      (noAttributes\<lparr>attr_host := Some ''db.internal'', attr_port := Some 5432\<rparr>)
      (init nat 1700000000, []))) = Some 26273
   \<and> map_option TunneledPort (assembled (providerConfigure exampleParse
      (getRandomPort length (\<lambda>g. (7919 * g + 100000, Suc g))) ()
      (noAttributes\<lparr>attr_host := Some ''db.internal'', attr_port := Some 5432\<rparr>)
      (snd (providerConfigure exampleParse
         (getRandomPort length (\<lambda>g. (7919 * g + 100000, Suc g))) ()
         (noAttributes\<lparr>attr_host := Some ''db.internal'', attr_port := Some 5432\<rparr>)
         (init nat 1700000000, []))))) = Some 26273"
proof -
  let ?R = "getRandomPort length (\<lambda>g. (7919 * g + 100000, Suc g))"
  let ?d = "noAttributes\<lparr>attr_host := Some ''db.internal'', attr_port := Some 5432\<rparr>"
  let ?st = "(init nat 1700000000, []) :: nat \<times> spawned"
  have seed: "Get_string (attr_host ?d) @ fmt_d (Get_int (attr_port ?d)) = ''db.internal5432''"
    by (simp add: Get_string_def Get_int_def fmt_d_def digits_small digits_step)
  have first: "map_option TunneledPort (assembled (providerConfigure exampleParse ?R () ?d ?st)) =
      Some 26273"
    unfolding assembled_TunneledPort seed by (simp add: getRandomPort_def)
  have "map_option TunneledPort (assembled (providerConfigure exampleParse ?R () ?d ?st)) =
      map_option TunneledPort (assembled (providerConfigure exampleParse ?R () ?d
        (snd (providerConfigure exampleParse ?R () ?d ?st))))"
    using tunnel_port_in_range_and_repeatable [of exampleParse length "\<lambda>g. (7919 * g + 100000, Suc g)"
        "()" ?d ?st ?d exampleParse "()" "snd (providerConfigure exampleParse ?R () ?d ?st)"]
    by blast
  with first show ?thesis by simp
qed

text \<open>
  C10. \<open>providerConfigure\<close> hands to \<open>getRandomPort\<close>, whatever that function is, the
  host followed by the decimal port, and the tunnel port of the descriptor is the port it
  answers. The map from (host, port) to that seed is not injective. With the tunnel-port
  derivation of the spec, two attribute sets whose seeds coincide get the same tunnel
  port, in whatever states of the generator the two assemblies run.
\<close>

theorem tunnel_seed_not_injective:
  "map_option TunneledPort (assembled (providerConfigure P R cx d st)) =
     Some (fst (R (Get_string (attr_host d) @ fmt_d (Get_int (attr_port d))) (fst st)))
   \<and> \<not> inj (\<lambda>(h, p). h @ fmt_d p)
   \<and> (Get_string (attr_host d) @ fmt_d (Get_int (attr_port d)) =
        Get_string (attr_host d') @ fmt_d (Get_int (attr_port d')) \<longrightarrow>
      map_option TunneledPort
        (assembled (providerConfigure P (getRandomPort seedFrom draw) cx d st)) =
      map_option TunneledPort
        (assembled (providerConfigure P' (getRandomPort seedFrom draw) cx' d' st')))"
proof -
  have "\<not> inj (\<lambda>(h, p). h @ fmt_d p)"
  proof
    assume "inj (\<lambda>(h, p). h @ fmt_d p)"
    moreover have "(\<lambda>(h, p). h @ fmt_d p) (''a1'', 1) = (\<lambda>(h, p). h @ fmt_d p) (''a'', 11)"
      using seed_collision by simp
    ultimately have "(''a1'', 1::int) = (''a'', 11::int)"
      by (rule injD)
    then show False by simp
  qed
  moreover have "map_option TunneledPort
        (assembled (providerConfigure P (getRandomPort seedFrom draw) cx d st)) =
      map_option TunneledPort
        (assembled (providerConfigure P' (getRandomPort seedFrom draw) cx' d' st'))"
    if "Get_string (attr_host d) @ fmt_d (Get_int (attr_port d)) =
        Get_string (attr_host d') @ fmt_d (Get_int (attr_port d'))"
    using that getRandomPort_reseeds [of seedFrom draw _ "fst st" "fst st'"]
    by (simp add: assembled_TunneledPort)
  ultimately show ?thesis
    using assembled_TunneledPort [of P R cx d st] by blast
qed

theorem tunnel_seed_not_injective_witness:
  "(''a1'', 1::int) \<noteq> (''a'', 11)
   \<and> ''a1'' @ fmt_d 1 = ''a'' @ fmt_d 11
   \<and> map_option TunneledPort (assembled (providerConfigure exampleParse
        (getRandomPort length (\<lambda>g. (7919 * g + 100000, Suc g))) ()
        (noAttributes\<lparr>attr_host := Some ''a1'', attr_port := Some 1\<rparr>)
        (init nat 1700000000, []))) = Some 60269
   \<and> map_option TunneledPort (assembled (providerConfigure exampleParse
        (getRandomPort length (\<lambda>g. (7919 * g + 100000, Suc g))) ()
        (noAttributes\<lparr>attr_host := Some ''a'', attr_port := Some 11\<rparr>)
        (snd (providerConfigure exampleParse
           (getRandomPort length (\<lambda>g. (7919 * g + 100000, Suc g))) ()
           (noAttributes\<lparr>attr_host := Some ''a1'', attr_port := Some 1\<rparr>)
           (init nat 1700000000, []))))) = Some 60269"
proof -
  let ?R = "getRandomPort length (\<lambda>g. (7919 * g + 100000, Suc g))"
  let ?d1 = "noAttributes\<lparr>attr_host := Some ''a1'', attr_port := Some 1\<rparr>"
  let ?d2 = "noAttributes\<lparr>attr_host := Some ''a'', attr_port := Some 11\<rparr>"
  let ?st = "(init nat 1700000000, []) :: nat \<times> spawned"
  have seed1: "Get_string (attr_host ?d1) @ fmt_d (Get_int (attr_port ?d1)) = ''a11''"
    by (simp add: Get_string_def Get_int_def fmt_d_def digits_small digits_step)
  have seed2: "Get_string (attr_host ?d2) @ fmt_d (Get_int (attr_port ?d2)) = ''a11''"
    by (simp add: Get_string_def Get_int_def fmt_d_def digits_small digits_step)
  have first: "map_option TunneledPort (assembled (providerConfigure exampleParse ?R () ?d1 ?st)) =
      Some 60269"
    unfolding assembled_TunneledPort seed1 by (simp add: getRandomPort_def)
  have "map_option TunneledPort (assembled (providerConfigure exampleParse ?R () ?d1 ?st)) =
      map_option TunneledPort (assembled (providerConfigure exampleParse ?R () ?d2
        (snd (providerConfigure exampleParse ?R () ?d1 ?st))))"
    using seed1 seed2
      tunnel_seed_not_injective [where d = ?d1 and d' = ?d2 and seedFrom = length
        and draw = "\<lambda>g. (7919 * g + 100000, Suc g)" and P = exampleParse and P' = exampleParse
        and cx = "()" and cx' = "()" and st = ?st
        and st' = "snd (providerConfigure exampleParse ?R () ?d1 ?st)"]
    by simp
  with first show ?thesis
    using seed_collision by simp
qed

section \<open>The password command\<close>

text \<open>
  C4. With the password resolution of the spec: when no static password is supplied, the
  password command is not empty, and the command exits with status 0 after writing a
  string followed by a line feed, \<open>getCommandOutput\<close> returns that output as it is, line
  feed included, and the resolved password is the string without the line feed.
\<close>

theorem password_command_output_trimmed:
  assumes "attr_password d = None"
    and "Get_string (attr_password_command d) = command"
    and "command \<noteq> ''''"
    and "run_err (Run cx command []) = None"
    and "stdout (Run cx command []) = s @ [CHR 0x0A]"
  shows "fst (getCommandOutput Run cx command [] procs) = (s @ [CHR 0x0A], None)
     \<and> resolvePassword Run cx d procs = (Inr s, procs @ [(command, [])])"
proof -
  have out: "getCommandOutput Run cx command [] procs =
      ((s @ [CHR 0x0A], None), procs @ [(command, [])])"
    using assms(4,5) by (simp add: getCommandOutput_def Let_def)
  have "trimLineTerminator (s @ [CHR 0x0A]) = s"
    by (simp add: trimLineTerminator_def)
  then show ?thesis
    using assms(1,2,3) out by (simp add: resolvePassword_def Let_def)
qed

theorem password_command_output_trimmed_witness:
  "attr_password (noAttributes\<lparr>attr_password_command := Some ''get-secret''\<rparr>) = None
   \<and> stdout (exampleRun () ''get-secret'' []) = ''secret'' @ [CHR 0x0A]
   \<and> run_err (exampleRun () ''get-secret'' []) = None
   \<and> fst (getCommandOutput exampleRun () ''get-secret'' [] []) = (''secret'' @ [CHR 0x0A], None)
   \<and> resolvePassword exampleRun () (noAttributes\<lparr>attr_password_command := Some ''get-secret''\<rparr>) [] =
       (Inr ''secret'', [(''get-secret'', [])])"
proof -
  let ?d = "noAttributes\<lparr>attr_password_command := Some ''get-secret''\<rparr>"
  have h1: "attr_password ?d = None"
    by (simp add: noAttributes_def)
  have h2: "Get_string (attr_password_command ?d) = ''get-secret''"
    by (simp add: Get_string_def)
  have h3: "''get-secret'' \<noteq> ''''"
    by simp
  have h4: "run_err (exampleRun () ''get-secret'' []) = None"
    by (simp add: exampleRun_def)
  have h5: "stdout (exampleRun () ''get-secret'' []) = ''secret'' @ [CHR 0x0A]"
    by (simp add: exampleRun_def)
  show ?thesis
    using h1 h4 h5 password_command_output_trimmed [of ?d "''get-secret''" exampleRun "()"
        "''secret''" "[]", OF h1 h2 h3 h4 h5]
    by simp
qed

end
